theory Spec2Isabelle
  imports Complex_Main
begin

section \<open>Errors\<close>

text \<open>
  The exceptions that \<^verbatim>\<open>aqt_common.py\<close> can raise. \<open>ValueError\<close> comes from the shape check
  and from \<^verbatim>\<open>str.index\<close>, \<open>AssertionError\<close> from the two \<^verbatim>\<open>assert\<close> statements, and a
  \<open>ConfigError\<close> carries the name of the field or axis that its message reports.
\<close>

datatype error =
    ValueError
  | AssertionError
  | ConfigError string

fun is_ConfigError :: "error + 'a \<Rightarrow> bool" where
  "is_ConfigError (Inl (ConfigError _)) = True"
| "is_ConfigError _ = False"


section \<open>Shape conformance\<close>

text \<open>
  A shape is a sequence of optional sizes: \<open>None\<close> is Python's \<^verbatim>\<open>None\<close>.
\<close>

type_synonym shape = "int option list"

text \<open>
  \<^verbatim>\<open>check_shapes_conformal\<close>, lines 41 to 48. The comprehension iterates over
  \<^verbatim>\<open>zip(actual, expected)\<close>, so \<open>ax\<close> is the entry of \<open>actual\<close> and \<open>given\<close> the
  entry of \<open>expected\<close>; \<open>zip\<close> stops at the shorter list, as Python's does.
\<close>

definition check_shapes_conformal :: "shape \<Rightarrow> shape \<Rightarrow> error + unit" where
  "check_shapes_conformal actual expected =
     (let expected_shape =
            map (\<lambda>(ax, given). if ax \<noteq> None then ax else given) (zip actual expected);
          compatible_rank = (length actual = length expected);
          compatible_size = (actual = expected_shape)
      in if \<not> compatible_rank \<or> \<not> compatible_size
         then Inl ValueError
         else Inr ())"


section \<open>Clip bounds\<close>

record IntQuantConfig =
  bits :: int
  preserve_zero :: bool

text \<open>
  Modelled from the spec: \<^verbatim>\<open>IntQuantConfig.validate\<close>, a method of the module
  \<^verbatim>\<open>aqt_config\<close>, which is not among the sources. The data model describes \<open>bits\<close> as a
  positive integer, so validation rejects a bit width below one. The upper limit of 23 is
  the assertion that \<^verbatim>\<open>get_clip_bound\<close> makes itself.
\<close>

definition validate :: "IntQuantConfig \<Rightarrow> error + unit" where
  "validate config = (if bits config < 1 then Inl (ConfigError ''bits'') else Inr ())"

text \<open>
  \<^verbatim>\<open>get_clip_bound\<close>, lines 51 to 57, and \<^verbatim>\<open>safe_clip_bound\<close>, lines 77 to 87. The
  source computes with Python floats, the model with rationals. For \<open>1 \<le> bits \<le> 23\<close>
  the two agree: \<open>2 ^ bits\<close>, the bucket count, its half and \<open>2 ^ (bits - 20)\<close> are
  multiples of \<open>2 ^ (- 19)\<close> below \<open>2 ^ 23\<close>, so every intermediate value has at most 42
  significant bits and the 53-bit double arithmetic is exact. Outside that range the
  function raises before it computes.
\<close>

definition get_clip_bound :: "IntQuantConfig \<Rightarrow> error + rat" where
  "get_clip_bound config =
     (case validate config of
        Inl e \<Rightarrow> Inl e
      | Inr _ \<Rightarrow>
          if \<not> bits config \<le> 23 then Inl AssertionError
          else let bucket_count = 2 powi bits config;
                   bucket_count = (if preserve_zero config then bucket_count - 1
                                   else bucket_count)
               in Inr (bucket_count / 2))"

definition safe_clip_bound :: "IntQuantConfig \<Rightarrow> error + rat" where
  "safe_clip_bound config =
     (case get_clip_bound config of
        Inl e \<Rightarrow> Inl e
      | Inr cb_unsafe \<Rightarrow>
          let cb = cb_unsafe - 2 powi (- 20 + bits config)
          in if \<not> cb < cb_unsafe then Inl AssertionError else Inr cb)"


section \<open>Contraction axes of a convolution\<close>

text \<open>
  Modelled from the spec: the type \<^verbatim>\<open>StatsConfig\<close> of the module \<^verbatim>\<open>aqt_config\<close>, which
  is not among the sources. The data model gives its three fields; the function below
  reads \<open>share_stats_axes\<close> only, and only through a membership test.
\<close>

record StatsConfig =
  share_stats_axes :: "nat set"
  lp_order :: rat
  ema_update_count :: "nat option"

text \<open>
  Python's \<^verbatim>\<open>str.index\<close> for a pattern of one character: the position of the first
  occurrence, and a \<open>ValueError\<close> when there is none.
\<close>

fun str_index :: "string \<Rightarrow> char \<Rightarrow> error + nat" where
  "str_index [] c = Inl ValueError"
| "str_index (x # xs) c =
     (if x = c then Inr 0
      else case str_index xs c of Inl e \<Rightarrow> Inl e | Inr i \<Rightarrow> Inr (Suc i))"

text \<open>
  The loop of lines 122 to 127 over the zipped axis names and dimension characters: the
  first axis that is missing from \<open>stats_axes\<close> ends the loop with a \<open>ConfigError\<close>.
\<close>

fun contraction_loop :: "nat set \<Rightarrow> string \<Rightarrow> (string \<times> char) list \<Rightarrow> error + unit" where
  "contraction_loop stats_axes data_format [] = Inr ()"
| "contraction_loop stats_axes data_format ((axis_name, dimc) # rest) =
     (case str_index data_format dimc of
        Inl e \<Rightarrow> Inl e
      | Inr axis \<Rightarrow>
          if axis \<notin> stats_axes then Inl (ConfigError axis_name)
          else contraction_loop stats_axes data_format rest)"

text \<open>
  \<^verbatim>\<open>validate_conv_contraction\<close>, lines 117 to 127. The feature dimension is one
  character, as the docstring says (\<open>C\<close> for the input, \<open>I\<close> for the filter). The path
  \<open>config_path\<close> only appears in the error message.
\<close>

definition validate_conv_contraction ::
    "StatsConfig \<Rightarrow> string \<Rightarrow> string \<Rightarrow> char \<Rightarrow> error + unit" where
  "validate_conv_contraction config config_path data_format feature_dim_char =
     (let stats_axes = share_stats_axes config;
          axis_names = [''height'', ''width'', ''channel''];
          dims = [CHR ''H'', CHR ''W'', feature_dim_char]
      in contraction_loop stats_axes data_format (zip axis_names dims))"

text \<open>
  The position of a character in a data format, used to state the properties: the number
  of characters before its first occurrence.
\<close>

definition axis_of :: "string \<Rightarrow> char \<Rightarrow> nat" where
  "axis_of data_format c = length (takeWhile (\<lambda>x. x \<noteq> c) data_format)"


section \<open>The quantizer's update step\<close>

text \<open>
  The tensor quantizer lives in the module \<^verbatim>\<open>aqt_tensor\<close>, of which the sources hold the
  test only. Its state and its update step follow sections 3 and 4.4 of the specification.
\<close>

datatype quantizer_state = Uninitialized | Calibrating | Frozen

datatype usage_error = NotCalibrating | Rejected error

record ('stats, 'tensor) Quantizer =
  state :: quantizer_state
  scale :: 'tensor
  last_update :: int
  quantized_variable :: 'tensor
  stats :: 'stats

text \<open>
  Modelled from the spec: \<^verbatim>\<open>TensorQuantizer.update\<close> of \<^verbatim>\<open>aqt_tensor\<close>, which is not among
  the sources. Section 4.4: the call is only valid from \<open>Calibrating\<close>, and a bit width
  above 23 is rejected at call time; if \<open>event_count\<close> equals \<open>last_update\<close> the call is a
  no-op; otherwise it folds the sample into the statistics (section 4.2), recomputes the
  scale from the statistics and the safe clip bound (section 4.3), sets \<open>last_update\<close> to
  \<open>event_count\<close> and replaces the cached quantized value. The three tensor operations
  are parameters: \<open>with_update\<close>, \<open>calibrate\<close> and \<open>to_quant\<close>.
\<close>

definition update ::
    "('stats \<Rightarrow> 'tensor \<Rightarrow> 'tensor \<Rightarrow> 'stats) \<Rightarrow> ('stats \<Rightarrow> rat \<Rightarrow> 'tensor) \<Rightarrow>
     ('tensor \<Rightarrow> rat \<Rightarrow> 'tensor \<Rightarrow> 'tensor) \<Rightarrow> IntQuantConfig \<Rightarrow>
     'tensor \<Rightarrow> 'tensor \<Rightarrow> int \<Rightarrow> ('stats, 'tensor) Quantizer \<Rightarrow>
     usage_error + ('stats, 'tensor) Quantizer" where
  "update with_update calibrate to_quant config sample weight event_count q =
     (if state q \<noteq> Calibrating then Inl NotCalibrating
      else case safe_clip_bound config of
        Inl e \<Rightarrow> Inl (Rejected e)
      | Inr bound \<Rightarrow>
          if event_count = last_update q then Inr q
          else let new_stats = with_update (stats q) sample weight;
                   new_scale = calibrate new_stats bound
               in Inr (q\<lparr>stats := new_stats, scale := new_scale,
                         last_update := event_count,
                         quantized_variable := to_quant new_scale bound sample\<rparr>))"


section \<open>Properties of the shape check\<close>



lemma check_shapes_conformal_total:
  "check_shapes_conformal actual expected = Inr () \<or>
   check_shapes_conformal actual expected = Inl ValueError"
  by (simp add: check_shapes_conformal_def Let_def)

text \<open>
  The other two examples of the specification behave as it says.
\<close>

lemma check_shapes_conformal_examples:
  "check_shapes_conformal [Some 2, Some 3] [Some 2, None] = Inr ()"
  "check_shapes_conformal [Some 2] [Some 2, Some 3] = Inl ValueError"
  by (simp_all add: check_shapes_conformal_def)

text \<open>
  Claim C1, at the input \<open>actual = [2, 4]\<close>, \<open>expected = [2, 3]\<close>: the docstring and
  the claim require a \<open>ValueError\<close>, since the second size differs from a known size of
  \<open>expected\<close>. The function returns without raising.
\<close>

theorem check_shapes_conformal_known_mismatch_returns:
  "check_shapes_conformal [Some 2, Some 4] [Some 2, Some 3] = Inr ()"
  by (simp add: check_shapes_conformal_def)

theorem check_shapes_conformal_known_mismatch_returns_witness:
  "check_shapes_conformal [Some 2, Some 4] [Some 2, Some 3] \<noteq> Inl ValueError"
  using check_shapes_conformal_known_mismatch_returns by simp





section \<open>Properties of the clip bounds\<close>

lemma get_clip_bound_valid:
  assumes "1 \<le> bits config" and "bits config \<le> 23"
  shows "get_clip_bound config =
           Inr ((2 powi bits config - (if preserve_zero config then 1 else 0)) / 2)"
  using assms by (simp add: get_clip_bound_def validate_def Let_def)

lemma pow2_pos: "(0::rat) < 2 powi k"
  by (simp add: zero_less_power_int)

text \<open>
  The assertion of \<^verbatim>\<open>safe_clip_bound\<close> never fails in exact arithmetic: whenever the
  display bound is returned, so is the safe bound.
\<close>

lemma safe_clip_bound_unfold:
  assumes "get_clip_bound config = Inr u"
  shows "safe_clip_bound config = Inr (u - 2 powi (bits config - 20))"
proof -
  have "u - 2 powi (- 20 + bits config) < u"
    using pow2_pos [of "- 20 + bits config"] by simp
  then show ?thesis
    using assms by (simp add: safe_clip_bound_def Let_def add.commute)
qed

lemma pow2_less_iff: "(2::rat) powi a < 2 powi b \<longleftrightarrow> a < b"
proof
  assume "a < b"
  then show "(2::rat) powi a < 2 powi b"
    by (simp add: power_int_strict_increasing)
next
  assume less: "(2::rat) powi a < 2 powi b"
  show "a < b"
  proof (rule ccontr)
    assume "\<not> a < b"
    then have "b \<le> a" by simp
    then have "(2::rat) powi b \<le> 2 powi a"
      by (simp add: power_int_increasing)
    with less show False by simp
  qed
qed

lemma offset_below_resolution_iff: "(2::rat) powi (k - 20) < 2 powi (- k) \<longleftrightarrow> k \<le> 9"
  by (simp add: pow2_less_iff) arith

text \<open>
  Claim C2, as stated, at \<open>bits = 10\<close> with \<open>preserve_zero\<close>: the display bound is
  \<open>1023 / 2\<close>, the safe bound is \<open>1023 / 2 - 1 / 1024\<close>, and their difference \<open>2 ^ (- 10)\<close>
  is not below the bucket resolution \<open>2 ^ (- 10)\<close>.
\<close>

theorem clip_offset_below_resolution_counterexample:
  "get_clip_bound \<lparr>bits = 10, preserve_zero = True\<rparr> = Inr (1023 / 2) \<and>
   safe_clip_bound \<lparr>bits = 10, preserve_zero = True\<rparr> = Inr (1023 / 2 - 1 / 1024) \<and>
   \<not> (projr (get_clip_bound \<lparr>bits = 10, preserve_zero = True\<rparr>)
        - projr (safe_clip_bound \<lparr>bits = 10, preserve_zero = True\<rparr>)
      < 2 powi (- bits \<lparr>bits = 10, preserve_zero = True\<rparr>))"
  by (simp add: safe_clip_bound_def get_clip_bound_def validate_def power_int_minus)

text \<open>
  Claim C2, amended: for every configuration with \<open>1 \<le> bits \<le> 23\<close> both bounds are
  returned, the display bound exceeds the safe bound by exactly \<open>2 ^ (bits - 20)\<close>, and
  this offset is below the bucket resolution \<open>2 ^ (- bits)\<close> exactly when \<open>bits \<le> 9\<close>.
\<close>

theorem clip_offset_below_resolution_iff:
  assumes "1 \<le> bits config" and "bits config \<le> 23"
  shows "\<exists>u s. get_clip_bound config = Inr u \<and> safe_clip_bound config = Inr s \<and>
           u - s = 2 powi (bits config - 20) \<and>
           (u - s < 2 powi (- bits config) \<longleftrightarrow> bits config \<le> 9)"
proof -
  let ?u = "(2 powi bits config - (if preserve_zero config then 1 else 0)) / (2::rat)"
  let ?s = "?u - 2 powi (bits config - 20)"
  have u: "get_clip_bound config = Inr ?u"
    using assms by (rule get_clip_bound_valid)
  have s: "safe_clip_bound config = Inr ?s"
    using u by (rule safe_clip_bound_unfold)
  have diff: "?u - ?s = 2 powi (bits config - 20)"
    by simp
  have "?u - ?s < 2 powi (- bits config) \<longleftrightarrow> bits config \<le> 9"
    unfolding diff by (rule offset_below_resolution_iff)
  with u s diff show ?thesis
    by blast
qed

theorem clip_offset_below_resolution_iff_witness:
  "(1::int) \<le> 8 \<and> (8::int) \<le> 23 \<and>
   (\<exists>u s. get_clip_bound \<lparr>bits = 8, preserve_zero = True\<rparr> = Inr u \<and>
          safe_clip_bound \<lparr>bits = 8, preserve_zero = True\<rparr> = Inr s \<and>
          u - s = 2 powi (8 - 20) \<and> u - s < 2 powi (- 8))"
  using clip_offset_below_resolution_iff [of "\<lparr>bits = 8, preserve_zero = True\<rparr>"]
  by simp

text \<open>
  Claim C3: for every configuration with \<open>1 \<le> bits \<le> 23\<close>, \<^verbatim>\<open>safe_clip_bound\<close> returns
  the value of \<^verbatim>\<open>get_clip_bound\<close> minus \<open>2 ^ (bits - 20)\<close>, and that value is strictly
  below the value of \<^verbatim>\<open>get_clip_bound\<close>.
\<close>

theorem safe_clip_bound_below_clip_bound:
  assumes "1 \<le> bits config" and "bits config \<le> 23"
  shows "\<exists>u s. get_clip_bound config = Inr u \<and> safe_clip_bound config = Inr s \<and>
           s = u - 2 powi (bits config - 20) \<and> s < u"
proof -
  obtain u where u: "get_clip_bound config = Inr u"
    using get_clip_bound_valid [OF assms] by blast
  have "safe_clip_bound config = Inr (u - 2 powi (bits config - 20))"
    using u by (rule safe_clip_bound_unfold)
  moreover have "u - 2 powi (bits config - 20) < u"
    using pow2_pos [of "bits config - 20"] by simp
  ultimately show ?thesis
    using u by blast
qed

theorem safe_clip_bound_below_clip_bound_witness:
  "(1::int) \<le> 8 \<and> (8::int) \<le> 23 \<and>
   (\<exists>u s. get_clip_bound \<lparr>bits = 8, preserve_zero = True\<rparr> = Inr u \<and>
          safe_clip_bound \<lparr>bits = 8, preserve_zero = True\<rparr> = Inr s \<and>
          s = u - 2 powi (8 - 20) \<and> s < u)"
  using safe_clip_bound_below_clip_bound [of "\<lparr>bits = 8, preserve_zero = True\<rparr>"]
  by simp

text \<open>
  Claim C4: for every configuration with \<open>1 \<le> bits \<le> 23\<close>, \<^verbatim>\<open>get_clip_bound\<close> returns
  half the bucket count, where the bucket count is \<open>2 ^ bits - 1\<close> if \<open>preserve_zero\<close>
  holds and \<open>2 ^ bits\<close> otherwise.
\<close>

theorem get_clip_bound_half_bucket_count:
  assumes "1 \<le> bits config" and "bits config \<le> 23"
  shows "get_clip_bound config =
           Inr ((if preserve_zero config then 2 ^ nat (bits config) - 1
                 else 2 ^ nat (bits config)) / 2)"
proof -
  have "(2::rat) powi bits config = 2 ^ nat (bits config)"
    using assms(1) by (simp add: power_int_def)
  then show ?thesis
    using get_clip_bound_valid [OF assms] by simp
qed

theorem get_clip_bound_half_bucket_count_witness:
  "(1::int) \<le> 8 \<and> (8::int) \<le> 23 \<and>
   get_clip_bound \<lparr>bits = 8, preserve_zero = True\<rparr> = Inr (255 / 2) \<and>
   get_clip_bound \<lparr>bits = 8, preserve_zero = False\<rparr> = Inr 128"
  using get_clip_bound_half_bucket_count [of "\<lparr>bits = 8, preserve_zero = True\<rparr>"]
    get_clip_bound_half_bucket_count [of "\<lparr>bits = 8, preserve_zero = False\<rparr>"]
  by simp

text \<open>
  Claim C5: for every configuration with \<open>bits > 23\<close>, \<^verbatim>\<open>get_clip_bound\<close> raises an
  error and so returns no bound; for \<open>bits \<le> 23\<close> on a configuration that passes
  validation it returns a bound.
\<close>

theorem get_clip_bound_raises_iff_too_many_bits:
  "(23 < bits config \<longrightarrow> (\<exists>e. get_clip_bound config = Inl e)) \<and>
   (bits config \<le> 23 \<and> validate config = Inr () \<longrightarrow> (\<exists>u. get_clip_bound config = Inr u))"
proof (intro conjI impI)
  assume "23 < bits config"
  then show "\<exists>e. get_clip_bound config = Inl e"
    by (simp add: get_clip_bound_def validate_def)
next
  assume valid: "bits config \<le> 23 \<and> validate config = Inr ()"
  then have "1 \<le> bits config"
    by (simp add: validate_def split: if_splits)
  then show "\<exists>u. get_clip_bound config = Inr u"
    using valid get_clip_bound_valid [of config] by blast
qed

theorem get_clip_bound_raises_iff_too_many_bits_witness:
  "(23::int) < 24 \<and> (\<exists>e. get_clip_bound \<lparr>bits = 24, preserve_zero = True\<rparr> = Inl e) \<and>
   (8::int) \<le> 23 \<and> validate \<lparr>bits = 8, preserve_zero = True\<rparr> = Inr () \<and>
   (\<exists>u. get_clip_bound \<lparr>bits = 8, preserve_zero = True\<rparr> = Inr u)"
  using get_clip_bound_raises_iff_too_many_bits [of "\<lparr>bits = 24, preserve_zero = True\<rparr>"]
    get_clip_bound_raises_iff_too_many_bits [of "\<lparr>bits = 8, preserve_zero = True\<rparr>"]
  by (simp add: validate_def)


section \<open>Properties of the contraction check\<close>

lemma str_index_found:
  "c \<in> set s \<Longrightarrow> str_index s c = Inr (axis_of s c)"
  by (induction s) (auto simp: axis_of_def)

lemma str_index_missing:
  "c \<notin> set s \<Longrightarrow> str_index s c = Inl ValueError"
  by (induction s) auto

text \<open>
  \<open>axis_of\<close> is the index that \<^verbatim>\<open>str.index\<close> returns: in range, holding the character,
  with no earlier occurrence.
\<close>

lemma axis_of_is_first:
  assumes "c \<in> set s"
  shows "axis_of s c < length s \<and> s ! axis_of s c = c \<and> (\<forall>j < axis_of s c. s ! j \<noteq> c)"
  using assms
proof (induction s)
  case Nil
  then show ?case by simp
next
  case (Cons x xs)
  show ?case
  proof (cases "x = c")
    case True
    then show ?thesis by (simp add: axis_of_def)
  next
    case False
    then have "c \<in> set xs" using Cons.prems by simp
    then have ih: "axis_of xs c < length xs \<and> xs ! axis_of xs c = c \<and>
        (\<forall>j < axis_of xs c. xs ! j \<noteq> c)"
      by (rule Cons.IH)
    have step: "axis_of (x # xs) c = Suc (axis_of xs c)"
      using False by (simp add: axis_of_def)
    show ?thesis
      using ih False by (auto simp: step less_Suc_eq_0_disj)
  qed
qed

text \<open>
  Claim C6: for a data format that contains \<open>H\<close>, \<open>W\<close> and the feature character,
  \<^verbatim>\<open>validate_conv_contraction\<close> raises \<open>ConfigError\<close> if and only if the position of one of
  the three characters is not in \<open>share_stats_axes\<close>; when all three positions are
  members it returns without error.
\<close>

theorem validate_conv_contraction_raises_iff:
  assumes "CHR ''H'' \<in> set data_format" and "CHR ''W'' \<in> set data_format"
    and "feature_dim_char \<in> set data_format"
  shows "(is_ConfigError
            (validate_conv_contraction config config_path data_format feature_dim_char)
          \<longleftrightarrow> (\<exists>d \<in> {CHR ''H'', CHR ''W'', feature_dim_char}.
                 axis_of data_format d \<notin> share_stats_axes config))
         \<and> ((\<forall>d \<in> {CHR ''H'', CHR ''W'', feature_dim_char}.
                 axis_of data_format d \<in> share_stats_axes config)
            \<longrightarrow> validate_conv_contraction config config_path data_format feature_dim_char
                  = Inr ())"
  using assms
  by (auto simp add: validate_conv_contraction_def str_index_found Let_def)

theorem validate_conv_contraction_raises_iff_witness:
  "CHR ''H'' \<in> set ''NHWC'' \<and> CHR ''W'' \<in> set ''NHWC'' \<and> CHR ''C'' \<in> set ''NHWC'' \<and>
   is_ConfigError (validate_conv_contraction
      \<lparr>share_stats_axes = {1, 2}, lp_order = 1, ema_update_count = None\<rparr>
      ''cfg'' ''NHWC'' CHR ''C'') \<and>
   validate_conv_contraction
      \<lparr>share_stats_axes = {1, 2, 3}, lp_order = 1, ema_update_count = None\<rparr>
      ''cfg'' ''NHWC'' CHR ''C'' = Inr ()"
  using validate_conv_contraction_raises_iff [of "''NHWC''" "CHR ''C''"
       "\<lparr>share_stats_axes = {1, 2}, lp_order = 1, ema_update_count = None\<rparr>" "''cfg''"]
    validate_conv_contraction_raises_iff [of "''NHWC''" "CHR ''C''"
       "\<lparr>share_stats_axes = {1, 2, 3}, lp_order = 1, ema_update_count = None\<rparr>" "''cfg''"]
  by (simp add: axis_of_def)


section \<open>Properties of the update step\<close>

text \<open>
  Claim C8: after a call of \<open>update\<close> that returned, a second call with the same
  \<open>event_count\<close> returns the quantizer unchanged, whatever sample and weight it is given:
  the statistics, the scale and \<open>last_update\<close> keep their values.
\<close>

theorem update_same_event_count_noop:
  assumes "update with_update calibrate to_quant config sample weight event_count q = Inr q'"
  shows "update with_update calibrate to_quant config sample' weight' event_count q' = Inr q'"
proof -
  from assms have calibrating: "state q = Calibrating"
    by (auto simp: update_def split: if_splits)
  from assms obtain bound where bound: "safe_clip_bound config = Inr bound"
    by (auto simp: update_def calibrating split: sum.splits)
  have "state q' = Calibrating \<and> last_update q' = event_count"
    using assms calibrating by (auto simp: update_def bound Let_def split: if_splits)
  then show ?thesis
    by (simp add: update_def bound)
qed

theorem update_same_event_count_noop_witness:
  "update (\<lambda>s x w. s + x * w) (\<lambda>s b. 1) (\<lambda>sc b x. x) \<lparr>bits = 8, preserve_zero = True\<rparr>
      10 1 1
      \<lparr>state = Calibrating, scale = 1, last_update = 0, quantized_variable = 0, stats = 0\<rparr>
     = Inr \<lparr>state = Calibrating, scale = 1, last_update = 1, quantized_variable = 10,
            stats = (10::rat)\<rparr>
   \<and> update (\<lambda>s x w. s + x * w) (\<lambda>s b. 1) (\<lambda>sc b x. x) \<lparr>bits = 8, preserve_zero = True\<rparr>
      10 1 1
      \<lparr>state = Calibrating, scale = 1, last_update = 1, quantized_variable = 10,
        stats = (10::rat)\<rparr>
     = Inr \<lparr>state = Calibrating, scale = 1, last_update = 1, quantized_variable = 10,
            stats = (10::rat)\<rparr>"
proof -
  have first:
    "update (\<lambda>s x w. s + x * w) (\<lambda>s b. 1) (\<lambda>sc b x. x) \<lparr>bits = 8, preserve_zero = True\<rparr>
      10 1 1
      \<lparr>state = Calibrating, scale = 1, last_update = 0, quantized_variable = 0, stats = 0\<rparr>
     = Inr \<lparr>state = Calibrating, scale = 1, last_update = 1, quantized_variable = 10,
            stats = (10::rat)\<rparr>"
    by (simp add: update_def safe_clip_bound_def get_clip_bound_def validate_def power_int_minus)
  show ?thesis
    using first update_same_event_count_noop [OF first, of 10 1] by simp
qed

end
